theory Spec2Isabelle
  imports Main "HOL-Library.Sublist"
begin

section \<open>Values, requests and the telemetry state\<close>

text \<open>
  The program is \<^verbatim>\<open>src/app.js\<close>: an Express application with one instrumentation
  middleware (lines 79-98) and two routes (lines 100-108). Its collaborators (the metrics
  registry, the tracer, the logger, the response object and the framework's dispatch) are
  libraries; their effects are modelled as updates of an explicit state, and a call that
  throws is a value \<open>Inl\<close> of the result.
\<close>

datatype error = Error string

text \<open>A JavaScript value used as a label value or a tag value: a string or a number.\<close>

datatype jsval = Str string | Num nat

type_synonym labels = "(string \<times> jsval) list"

record request =
  req_method :: string
  req_path :: string
  req_headers :: "(string \<times> string) list"

datatype span_context = SpanContext string string

record span =
  span_name :: string
  span_parent :: "span_context option"
  span_tags :: "(string \<times> jsval) list"
  span_finish_calls :: nat

text \<open>The calls made on the registry and the tracer, in the order they happen.\<close>

datatype action =
    StartSpan nat
  | StartTimer
  | CounterInc labels
  | Observe labels int
  | SetTag nat string jsval
  | SpanFinish nat

text \<open>
  The process-wide state: the series of \<open>httpRequestCounter\<close> (label set and value, in
  order of first use), the observations of \<open>httpRequestDurationMicroseconds\<close>, the spans
  of the tracer (a span handle is its index), what \<open>logger\<close> wrote (level and message),
  the clock, and the log of collaborator calls.
\<close>

record world =
  counter :: "(labels \<times> nat) list"
  histogram :: "(labels \<times> int) list"
  spans :: "span list"
  logged :: "(string \<times> string) list"
  now :: int
  trace :: "action list"

text \<open>The collaborator calls of the middleware that may throw.\<close>

datatype op = OpStartSpan | OpStartTimer | OpCounterInc | OpTimerEnd | OpSetTag | OpSpanFinish

text \<open>
  What the libraries contribute and the source does not fix: which collaborator calls
  throw, the tracer's wire codec, and the exposition lines of the metric families other
  than \<open>http_requests_total\<close> (the default process metrics, and the histogram).
\<close>

record env =
  throws :: "op set"
  codec :: "(string \<times> string) list \<Rightarrow> span_context option"
  default_lines :: "string list"
  histogram_lines :: "(labels \<times> int) list \<Rightarrow> string list"

section \<open>The metrics registry (lines 7-37)\<close>

definition httpRequestCounter_name :: string where
  "httpRequestCounter_name = ''http_requests_total''"

definition httpRequestCounter_help :: string where
  "httpRequestCounter_help = ''Total number of HTTP requests''"

definition httpRequestCounter_labelNames :: "string list" where
  "httpRequestCounter_labelNames = [''method'', ''route'', ''status_code'']"

definition httpRequestDurationMicroseconds_labelNames :: "string list" where
  "httpRequestDurationMicroseconds_labelNames = [''method'', ''route'', ''code'']"

definition register_defaultLabels :: "(string \<times> string) list" where
  "register_defaultLabels = [(''app'', ''nodejs-demo-app'')]"

definition register_contentType :: string where
  "register_contentType = ''text/plain; version=0.0.4; charset=utf-8''"

text \<open>A metric rejects a label whose name was not declared in its \<open>labelNames\<close>.\<close>

definition validateLabel :: "string list \<Rightarrow> labels \<Rightarrow> bool" where
  "validateLabel names l = list_all (\<lambda>kv. fst kv \<in> set names) l"

text \<open>Adding one to the series of a label set, creating the series at one when it is new.\<close>

fun bump :: "labels \<Rightarrow> (labels \<times> nat) list \<Rightarrow> (labels \<times> nat) list" where
  "bump l [] = [(l, 1)]"
| "bump l ((k, v) # kvs) = (if k = l then (k, v + 1) # kvs else (k, v) # bump l kvs)"


definition httpRequestCounter_inc :: "env \<Rightarrow> labels \<Rightarrow> world \<Rightarrow> (error + unit) \<times> world" where
  "httpRequestCounter_inc e l w =
     (if OpCounterInc \<in> throws e then (Inl (Error ''counter.inc''), w)
      else if \<not> validateLabel httpRequestCounter_labelNames l
        then (Inl (Error ''label is not included in initial labelset''), w)
      else (Inr (), w\<lparr>counter := bump l (counter w), trace := trace w @ [CounterInc l]\<rparr>))"

text \<open>\<open>startTimer()\<close> captures the start time; the function it returns is \<open>timer_end\<close>.\<close>

definition httpRequestDurationMicroseconds_startTimer :: "env \<Rightarrow> world \<Rightarrow> (error + int) \<times> world" where
  "httpRequestDurationMicroseconds_startTimer e w =
     (if OpStartTimer \<in> throws e then (Inl (Error ''histogram.startTimer''), w)
      else (Inr (now w), w\<lparr>trace := trace w @ [StartTimer]\<rparr>))"

definition timer_end :: "env \<Rightarrow> int \<Rightarrow> labels \<Rightarrow> world \<Rightarrow> (error + unit) \<times> world" where
  "timer_end e start l w =
     (if OpTimerEnd \<in> throws e then (Inl (Error ''histogram.observe''), w)
      else if \<not> validateLabel httpRequestDurationMicroseconds_labelNames l
        then (Inl (Error ''label is not included in initial labelset''), w)
      else (Inr (), w\<lparr>histogram := histogram w @ [(l, now w - start)],
                       trace := trace w @ [Observe l (now w - start)]\<rparr>))"

section \<open>The logger (lines 39-46)\<close>

definition logger_info :: "string \<Rightarrow> world \<Rightarrow> world" where
  "logger_info msg w = w\<lparr>logged := logged w @ [(''info'', msg)]\<rparr>"

section \<open>The tracer (lines 48-75)\<close>

text \<open>
  Modelled from the spec: \<open>tracer.extract\<close> belongs to the tracing library, which is not
  under \<^verbatim>\<open>src/\<close>. The spec (4.1 step 1, and 7): a parent trace context is extracted
  from the header mapping by a fixed wire convention; extraction never fails fatally; if
  the headers carry no valid context the result is "no parent".
\<close>

definition tracer_extract :: "env \<Rightarrow> (string \<times> string) list \<Rightarrow> span_context option" where
  "tracer_extract e hdrs = codec e hdrs"

definition tracer_startSpan ::
  "env \<Rightarrow> string \<Rightarrow> span_context option \<Rightarrow> (string \<times> jsval) list \<Rightarrow> world \<Rightarrow> (error + nat) \<times> world" where
  "tracer_startSpan e name childOf tags w =
     (if OpStartSpan \<in> throws e then (Inl (Error ''tracer.startSpan''), w)
      else (Inr (length (spans w)),
            w\<lparr>spans := spans w @
                 [\<lparr>span_name = name, span_parent = childOf, span_tags = tags,
                   span_finish_calls = 0\<rparr>],
              trace := trace w @ [StartSpan (length (spans w))]\<rparr>))"

definition span_setTag :: "env \<Rightarrow> nat \<Rightarrow> string \<Rightarrow> jsval \<Rightarrow> world \<Rightarrow> (error + unit) \<times> world" where
  "span_setTag e sid k v w =
     (if OpSetTag \<in> throws e then (Inl (Error ''span.setTag''), w)
      else (Inr (),
            w\<lparr>spans := (spans w)[sid := (spans w ! sid)\<lparr>span_tags := span_tags (spans w ! sid) @ [(k, v)]\<rparr>],
              trace := trace w @ [SetTag sid k v]\<rparr>))"

definition span_finish :: "env \<Rightarrow> nat \<Rightarrow> world \<Rightarrow> (error + unit) \<times> world" where
  "span_finish e sid w =
     (if OpSpanFinish \<in> throws e then (Inl (Error ''span.finish''), w)
      else (Inr (),
            w\<lparr>spans := (spans w)[sid := (spans w ! sid)\<lparr>span_finish_calls := Suc (span_finish_calls (spans w ! sid))\<rparr>],
              trace := trace w @ [SpanFinish sid]\<rparr>))"

text \<open>The tag names and values of the tracing API that the source refers to.\<close>

definition SPAN_KIND :: string where
  "SPAN_KIND = ''span.kind''"

definition SPAN_KIND_RPC_SERVER :: string where
  "SPAN_KIND_RPC_SERVER = ''server''"

definition HTTP_STATUS_CODE :: string where
  "HTTP_STATUS_CODE = ''http.status_code''"

section \<open>The response object\<close>

datatype res_event = Finish | Close

text \<open>
  The variables the completion callback of line 87 closes over: the request, the span and
  the timer's \<open>end\<close> function (its start time). The response itself is read when the
  callback runs.
\<close>

record closure =
  cb_req :: request
  cb_span :: nat
  cb_end :: int

record response =
  statusCode :: nat
  res_headers :: "(string \<times> string) list"
  body :: "string list"
  listeners :: "(res_event \<times> closure) list"

definition new_response :: response where
  "new_response = \<lparr>statusCode = 200, res_headers = [], body = [], listeners = []\<rparr>"

definition res_on :: "res_event \<Rightarrow> closure \<Rightarrow> response \<Rightarrow> response" where
  "res_on ev cb res = res\<lparr>listeners := listeners res @ [(ev, cb)]\<rparr>"

definition res_set :: "string \<Rightarrow> string \<Rightarrow> response \<Rightarrow> response" where
  "res_set k v res = res\<lparr>res_headers := (k, v) # filter (\<lambda>h. fst h \<noteq> k) (res_headers res)\<rparr>"

text \<open>
  The payload is kept as its list of lines. A response to a \<open>HEAD\<close> request carries no
  payload. The headers that \<open>res.send\<close> derives from the payload are not modelled.
\<close>

definition res_end :: "request \<Rightarrow> string list \<Rightarrow> response \<Rightarrow> response" where
  "res_end req payload res = res\<lparr>body := (if req_method req = ''HEAD'' then [] else payload)\<rparr>"

definition res_send :: "request \<Rightarrow> string \<Rightarrow> response \<Rightarrow> response" where
  "res_send req text res = res_end req [text] res"

section \<open>The middleware (lines 79-98)\<close>

definition counter_labels :: "request \<Rightarrow> response \<Rightarrow> labels" where
  "counter_labels req res =
     [(''method'', Str (req_method req)), (''route'', Str (req_path req)),
      (''status_code'', Num (statusCode res))]"

definition histogram_labels :: "request \<Rightarrow> response \<Rightarrow> labels" where
  "histogram_labels req res =
     [(''method'', Str (req_method req)), (''route'', Str (req_path req)),
      (''code'', Num (statusCode res))]"

text \<open>The completion callback, lines 87-96. An exception leaves the rest undone.\<close>

definition on_finish :: "env \<Rightarrow> closure \<Rightarrow> response \<Rightarrow> world \<Rightarrow> (error + unit) \<times> world" where
  "on_finish e cb res w =
     (case httpRequestCounter_inc e (counter_labels (cb_req cb) res) w of
        (Inl x, w1) \<Rightarrow> (Inl x, w1)
      | (Inr _, w1) \<Rightarrow>
     (case timer_end e (cb_end cb) (histogram_labels (cb_req cb) res) w1 of
        (Inl x, w2) \<Rightarrow> (Inl x, w2)
      | (Inr _, w2) \<Rightarrow>
     (case span_setTag e (cb_span cb) HTTP_STATUS_CODE (Num (statusCode res)) w2 of
        (Inl x, w3) \<Rightarrow> (Inl x, w3)
      | (Inr _, w3) \<Rightarrow> span_finish e (cb_span cb) w3)))"

text \<open>
  The middleware. \<open>next\<close> is the rest of the framework's stack; the framework catches
  what a later handler throws, so \<open>next\<close> itself returns normally.
\<close>

definition middleware ::
  "env \<Rightarrow> request \<Rightarrow> response \<Rightarrow> (response \<Rightarrow> world \<Rightarrow> response \<times> world) \<Rightarrow> world
     \<Rightarrow> (error + unit) \<times> response \<times> world" where
  "middleware e req res next w =
     (let parentSpanContext = tracer_extract e (req_headers req) in
      case tracer_startSpan e (req_path req) parentSpanContext
             [(SPAN_KIND, Str SPAN_KIND_RPC_SERVER)] w of
        (Inl x, w1) \<Rightarrow> (Inl x, res, w1)
      | (Inr span, w1) \<Rightarrow>
     (case httpRequestDurationMicroseconds_startTimer e w1 of
        (Inl x, w2) \<Rightarrow> (Inl x, res, w2)
      | (Inr end, w2) \<Rightarrow>
     (case next (res_on Finish \<lparr>cb_req = req, cb_span = span, cb_end = end\<rparr> res) w2 of
        (res', w3) \<Rightarrow> (Inr (), res', w3))))"

section \<open>Rendering the registry\<close>

fun show_nat :: "nat \<Rightarrow> string" where
  "show_nat n =
     (if n < 10 then [''0123456789'' ! n]
      else show_nat (n div 10) @ [''0123456789'' ! (n mod 10)])"

declare show_nat.simps [simp del]

definition escape_char :: "char \<Rightarrow> string" where
  "escape_char c =
     (if c = CHR 0x5C then [CHR 0x5C, CHR 0x5C]
      else if c = CHR 0x0A then [CHR 0x5C, CHR ''n'']
      else if c = CHR 0x22 then [CHR 0x5C, CHR 0x22]
      else [c])"

definition escapeLabelValue :: "jsval \<Rightarrow> string" where
  "escapeLabelValue v = (case v of Str s \<Rightarrow> concat (map escape_char s) | Num n \<Rightarrow> show_nat n)"

fun join_commas :: "string list \<Rightarrow> string" where
  "join_commas [] = []"
| "join_commas [x] = x"
| "join_commas (x # y # ys) = x @ '','' @ join_commas (y # ys)"

definition label_pair :: "string \<times> jsval \<Rightarrow> string" where
  "label_pair kv = fst kv @ ''='' @ [CHR 0x22] @ escapeLabelValue (snd kv) @ [CHR 0x22]"

definition sample_line :: "string \<Rightarrow> labels \<times> nat \<Rightarrow> string" where
  "sample_line name s =
     name @ ''{''
       @ join_commas (map label_pair (fst s @ map (\<lambda>d. (fst d, Str (snd d))) register_defaultLabels))
       @ ''} '' @ show_nat (snd s)"

definition counter_family :: "(labels \<times> nat) list \<Rightarrow> string list" where
  "counter_family c =
     [''# HELP '' @ httpRequestCounter_name @ '' '' @ httpRequestCounter_help,
      ''# TYPE '' @ httpRequestCounter_name @ '' counter'']
     @ map (sample_line httpRequestCounter_name) c"

text \<open>
  Modelled from the spec: \<open>register.metrics()\<close> belongs to the metrics library, which is
  not under \<^verbatim>\<open>src/\<close>. The spec (6): the registry's accumulated samples are rendered
  in the standard exposition text format, default process metrics plus the two application
  metrics, with the default label \<open>app\<close> attached to every series. A family is its
  \<open>HELP\<close> and \<open>TYPE\<close> comment lines followed by one line per accumulated sample, in
  the order of registration (lines 16, 26, 37).
\<close>

definition register_metrics :: "env \<Rightarrow> world \<Rightarrow> string list" where
  "register_metrics e w =
     default_lines e @ counter_family (counter w) @ histogram_lines e (histogram w)"

section \<open>The routes (lines 100-108)\<close>

definition hello :: "request \<Rightarrow> response \<Rightarrow> world \<Rightarrow> response \<times> world" where
  "hello req res w =
     (let w1 = logger_info ''Hello World endpoint was called'' w
      in (res_send req ''Hello World!'' res, w1))"

definition metrics :: "env \<Rightarrow> request \<Rightarrow> response \<Rightarrow> world \<Rightarrow> response \<times> world" where
  "metrics e req res w =
     (let res1 = res_set ''Content-Type'' register_contentType res
      in (res_end req (register_metrics e w) res1, w))"

section \<open>The framework: dispatch and response events\<close>

text \<open>
  Route paths are matched as the framework does by default: without regard to case and
  with an optional trailing slash. A route registered with \<open>app.get\<close> also answers
  \<open>HEAD\<close>; \<open>OPTIONS\<close> on a registered path is answered by the framework with the allowed
  methods; everything else falls through to the framework's 404 response. The middleware of
  line 79 is registered without a path and a method, so it runs first for every request.
\<close>

definition to_lower :: "char \<Rightarrow> char" where
  "to_lower c =
     (case map_of (zip ''ABCDEFGHIJKLMNOPQRSTUVWXYZ'' ''abcdefghijklmnopqrstuvwxyz'') c of
        Some l \<Rightarrow> l
      | None \<Rightarrow> c)"

definition strip_slash :: "string \<Rightarrow> string" where
  "strip_slash p = (if p \<noteq> [] \<and> last p = CHR ''/'' then butlast p else p)"

definition path_matches :: "string \<Rightarrow> string \<Rightarrow> bool" where
  "path_matches pattern p = (map to_lower (strip_slash p) = map to_lower (strip_slash pattern))"

definition handles_method :: "string \<Rightarrow> bool" where
  "handles_method m = (m = ''GET'' \<or> m = ''HEAD'')"

definition registered_path :: "string \<Rightarrow> bool" where
  "registered_path p = (path_matches ''/'' p \<or> path_matches ''/metrics'' p)"

text \<open>The framework's own responses; the HTML page around the message is not modelled.\<close>

definition finalhandler :: "nat \<Rightarrow> string \<Rightarrow> request \<Rightarrow> response \<Rightarrow> response" where
  "finalhandler status msg req res = res_end req [msg] (res\<lparr>statusCode := status\<rparr>)"

definition sendOptionsResponse :: "request \<Rightarrow> response \<Rightarrow> response" where
  "sendOptionsResponse req res = res_end req [''GET,HEAD''] (res_set ''Allow'' ''GET,HEAD'' res)"

definition router :: "env \<Rightarrow> request \<Rightarrow> response \<Rightarrow> world \<Rightarrow> response \<times> world" where
  "router e req res w =
     (if path_matches ''/'' (req_path req) \<and> handles_method (req_method req)
        then hello req res w
      else if path_matches ''/metrics'' (req_path req) \<and> handles_method (req_method req)
        then metrics e req res w
      else if req_method req = ''OPTIONS'' \<and> registered_path (req_path req)
        then (sendOptionsResponse req res, w)
      else (finalhandler 404 (''Cannot '' @ req_method req @ '' '' @ req_path req) req res, w))"

text \<open>
  One request through the application: the middleware, then the routes. An exception
  thrown by the middleware is caught by the framework, which answers with its 500 response.
\<close>

definition app_handle :: "env \<Rightarrow> request \<Rightarrow> world \<Rightarrow> response \<times> world" where
  "app_handle e req w =
     (case middleware e req new_response (router e req) w of
        (Inr _, res, w1) \<Rightarrow> (res, w1)
      | (Inl x, res, w1) \<Rightarrow> (finalhandler 500 ''Internal Server Error'' req res, w1))"

text \<open>
  Emitting an event on the response runs the listeners registered under that event's
  name, in order of registration. An exception thrown by a listener leaves the emit.
\<close>

fun run_listeners :: "env \<Rightarrow> closure list \<Rightarrow> response \<Rightarrow> world \<Rightarrow> (error + unit) \<times> world" where
  "run_listeners e [] res w = (Inr (), w)"
| "run_listeners e (cb # cbs) res w =
     (case on_finish e cb res w of
        (Inl x, w1) \<Rightarrow> (Inl x, w1)
      | (Inr _, w1) \<Rightarrow> run_listeners e cbs res w1)"

definition emit :: "env \<Rightarrow> res_event \<Rightarrow> response \<Rightarrow> world \<Rightarrow> (error + unit) \<times> world" where
  "emit e ev res w =
     run_listeners e (map snd (filter (\<lambda>l. fst l = ev) (listeners res))) res w"

text \<open>
  The events the runtime emits on the response after the handler has ended it, each with
  the time at which it is emitted: \<open>[(t, Finish), (t', Close)]\<close> when the response was
  handed over completely, \<open>[(t, Close)]\<close> when the connection was closed before that.
\<close>

fun deliver :: "env \<Rightarrow> (int \<times> res_event) list \<Rightarrow> response \<Rightarrow> world \<Rightarrow> (error + unit) \<times> world" where
  "deliver e [] res w = (Inr (), w)"
| "deliver e ((t, ev) # evs) res w =
     (case emit e ev res (w\<lparr>now := t\<rparr>) of
        (Inl x, w1) \<Rightarrow> (Inl x, w1)
      | (Inr _, w1) \<Rightarrow> deliver e evs res w1)"

definition serve ::
  "env \<Rightarrow> request \<Rightarrow> (int \<times> res_event) list \<Rightarrow> world \<Rightarrow> (error + unit) \<times> response \<times> world" where
  "serve e req evs w =
     (case app_handle e req w of
        (res, w1) \<Rightarrow> (case deliver e evs res w1 of (r, w2) \<Rightarrow> (r, res, w2)))"

text \<open>The times at which \<open>Finish\<close> is emitted, in order.\<close>

definition finish_times :: "(int \<times> res_event) list \<Rightarrow> int list" where
  "finish_times evs = map fst (filter (\<lambda>te. snd te = Finish) evs)"

text \<open>A fresh process: nothing recorded yet.\<close>

definition fresh :: world where
  "fresh = \<lparr>counter = [], histogram = [], spans = [], logged = [], now = 0, trace = []\<rparr>"

text \<open>
  Modelled from the spec: an instance of the wire convention of the spec (6), one header
  that carries trace-id, span-id, parent-span-id and sampling flag separated by colons. It
  is the codec of the example environment below.
\<close>

fun split_on :: "char \<Rightarrow> string \<Rightarrow> string list" where
  "split_on c [] = [[]]"
| "split_on c (x # xs) =
     (if x = c then [] # split_on c xs
      else (case split_on c xs of [] \<Rightarrow> [[x]] | y # ys \<Rightarrow> (x # y) # ys))"

definition header_codec :: "(string \<times> string) list \<Rightarrow> span_context option" where
  "header_codec hdrs =
     (case map_of hdrs ''uber-trace-id'' of
        None \<Rightarrow> None
      | Some v \<Rightarrow>
          (case split_on CHR '':'' v of
             [tid, sid, pid, flags] \<Rightarrow>
               if tid \<noteq> [] \<and> sid \<noteq> [] then Some (SpanContext tid sid) else None
           | _ \<Rightarrow> None))"

text \<open>
  An example environment: no collaborator call throws, one default process metric, and a
  histogram family that shows its two comment lines.
\<close>

definition env0 :: env where
  "env0 =
     \<lparr>throws = {},
      codec = header_codec,
      default_lines =
        [''# HELP process_cpu_user_seconds_total Total user CPU time spent in seconds.'',
         ''# TYPE process_cpu_user_seconds_total counter'',
         ''process_cpu_user_seconds_total{app='' @ [CHR 0x22] @ ''nodejs-demo-app'' @ [CHR 0x22] @ ''} 0''],
      histogram_lines =
        (\<lambda>h. [''# HELP http_request_duration_ms Duration of HTTP requests in ms'',
              ''# TYPE http_request_duration_ms histogram''])\<rparr>"

text \<open>Example requests.\<close>

definition get_root :: request where
  "get_root = \<lparr>req_method = ''GET'', req_path = ''/'', req_headers = []\<rparr>"

definition get_root_traced :: request where
  "get_root_traced =
     \<lparr>req_method = ''GET'', req_path = ''/'',
      req_headers = [(''uber-trace-id'', ''abc123:def456:0:1'')]\<rparr>"

definition get_root_untraced :: request where
  "get_root_untraced =
     \<lparr>req_method = ''GET'', req_path = ''/'',
      req_headers = [(''host'', ''localhost:8080''), (''uber-trace-id'', ''garbage'')]\<rparr>"

definition get_metrics :: request where
  "get_metrics = \<lparr>req_method = ''GET'', req_path = ''/metrics'', req_headers = []\<rparr>"

definition post_nope :: request where
  "post_nope = \<lparr>req_method = ''POST'', req_path = ''/nope'', req_headers = []\<rparr>"

section \<open>What one request does\<close>

lemma router_listeners: "listeners (fst (router e req res w)) = listeners res"
  by (simp add: router_def hello_def metrics_def sendOptionsResponse_def finalhandler_def
        res_send_def res_end_def res_set_def Let_def)

lemma router_world:
  "counter (snd (router e req res w)) = counter w"
  "histogram (snd (router e req res w)) = histogram w"
  "spans (snd (router e req res w)) = spans w"
  "now (snd (router e req res w)) = now w"
  "trace (snd (router e req res w)) = trace w"
  by (simp_all add: router_def hello_def metrics_def logger_info_def Let_def)

lemma app_handle_started:
  assumes "OpStartSpan \<notin> throws e" and "OpStartTimer \<notin> throws e"
  shows "app_handle e req w =
           router e req
             (res_on Finish \<lparr>cb_req = req, cb_span = length (spans w), cb_end = now w\<rparr> new_response)
             (w\<lparr>spans := spans w @
                   [\<lparr>span_name = req_path req, span_parent = tracer_extract e (req_headers req),
                     span_tags = [(SPAN_KIND, Str SPAN_KIND_RPC_SERVER)], span_finish_calls = 0\<rparr>],
                trace := trace w @ [StartSpan (length (spans w)), StartTimer]\<rparr>)"
  using assms
  by (simp add: app_handle_def middleware_def tracer_startSpan_def
        httpRequestDurationMicroseconds_startTimer_def Let_def split: prod.splits)

lemma valid_counter_labels: "validateLabel httpRequestCounter_labelNames (counter_labels req res)"
  by (simp add: validateLabel_def httpRequestCounter_labelNames_def counter_labels_def)

lemma valid_histogram_labels:
  "validateLabel httpRequestDurationMicroseconds_labelNames (histogram_labels req res)"
  by (simp add: validateLabel_def httpRequestDurationMicroseconds_labelNames_def histogram_labels_def)

lemma on_finish_ok:
  assumes "throws e = {}" and "cb_span cb < length (spans w)"
  shows "on_finish e cb res w =
           (Inr (),
            w\<lparr>counter := bump (counter_labels (cb_req cb) res) (counter w),
              histogram := histogram w @ [(histogram_labels (cb_req cb) res, now w - cb_end cb)],
              spans := (spans w)[cb_span cb := (spans w ! cb_span cb)
                 \<lparr>span_tags := span_tags (spans w ! cb_span cb) @ [(HTTP_STATUS_CODE, Num (statusCode res))],
                  span_finish_calls := Suc (span_finish_calls (spans w ! cb_span cb))\<rparr>],
              trace := trace w @
                 [CounterInc (counter_labels (cb_req cb) res),
                  Observe (histogram_labels (cb_req cb) res) (now w - cb_end cb),
                  SetTag (cb_span cb) HTTP_STATUS_CODE (Num (statusCode res)),
                  SpanFinish (cb_span cb)]\<rparr>)"
  using assms
  by (simp add: on_finish_def httpRequestCounter_inc_def timer_end_def span_setTag_def
        span_finish_def valid_counter_labels valid_histogram_labels)

lemma emit_finish_ok:
  assumes "throws e = {}" and "cb_span cb < length (spans w)" and "listeners res = [(Finish, cb)]"
  shows "emit e Finish res w = on_finish e cb res w"
  using assms by (simp add: emit_def on_finish_ok)

lemma emit_close:
  assumes "listeners res = [(Finish, cb)]"
  shows "emit e Close res w = (Inr (), w)"
  using assms by (simp add: emit_def)

lemma deliver_ok:
  assumes "throws e = {}" and "listeners res = [(Finish, cb)]"
  shows "cb_span cb < length (spans w) \<Longrightarrow>
         deliver e evs res w =
           (Inr (),
            w\<lparr>counter := (bump (counter_labels (cb_req cb) res) ^^ length (finish_times evs)) (counter w),
              histogram := histogram w @
                 map (\<lambda>t. (histogram_labels (cb_req cb) res, t - cb_end cb)) (finish_times evs),
              spans := (spans w)[cb_span cb := (spans w ! cb_span cb)
                 \<lparr>span_tags := span_tags (spans w ! cb_span cb) @
                     replicate (length (finish_times evs)) (HTTP_STATUS_CODE, Num (statusCode res)),
                  span_finish_calls := span_finish_calls (spans w ! cb_span cb) + length (finish_times evs)\<rparr>],
              now := (if evs = [] then now w else fst (last evs)),
              trace := trace w @ concat (map (\<lambda>t.
                 [CounterInc (counter_labels (cb_req cb) res),
                  Observe (histogram_labels (cb_req cb) res) (t - cb_end cb),
                  SetTag (cb_span cb) HTTP_STATUS_CODE (Num (statusCode res)),
                  SpanFinish (cb_span cb)]) (finish_times evs))\<rparr>)"
proof (induction evs arbitrary: w)
  case Nil
  then show ?case by (simp add: finish_times_def)
next
  case (Cons te evs)
  obtain t ev where te: "te = (t, ev)" by (cases te)
  show ?case
  proof (cases ev)
    case Finish
    have len: "cb_span cb < length (spans (w\<lparr>now := t\<rparr>))" using Cons.prems by simp
    show ?thesis
      using Cons.prems
      apply (simp add: te Finish emit_finish_ok [OF assms(1) len assms(2)] on_finish_ok [OF assms(1) len])
      apply (subst Cons.IH)
       apply simp
      apply (simp add: finish_times_def funpow_swap1 replicate_append_same)
      done
  next
    case Close
    show ?thesis
      using Cons.prems
      apply (simp add: te Close emit_close [OF assms(2)])
      apply (subst Cons.IH)
       apply simp
      apply (simp add: finish_times_def)
      done
  qed
qed

lemma app_handle_listeners:
  assumes "OpStartSpan \<notin> throws e" and "OpStartTimer \<notin> throws e"
  shows "listeners (fst (app_handle e req w)) =
           [(Finish, \<lparr>cb_req = req, cb_span = length (spans w), cb_end = now w\<rparr>)]"
  by (simp add: app_handle_started [OF assms] router_listeners res_on_def new_response_def)

lemma app_handle_world:
  assumes "OpStartSpan \<notin> throws e" and "OpStartTimer \<notin> throws e"
  shows "counter (snd (app_handle e req w)) = counter w"
    and "histogram (snd (app_handle e req w)) = histogram w"
    and "now (snd (app_handle e req w)) = now w"
    and "trace (snd (app_handle e req w)) = trace w @ [StartSpan (length (spans w)), StartTimer]"
    and "spans (snd (app_handle e req w)) = spans w @
           [\<lparr>span_name = req_path req, span_parent = tracer_extract e (req_headers req),
             span_tags = [(SPAN_KIND, Str SPAN_KIND_RPC_SERVER)], span_finish_calls = 0\<rparr>]"
  by (simp_all add: app_handle_started [OF assms] router_world)

lemma serve_ok:
  assumes "throws e = {}"
  shows "serve e req evs w =
    (Inr (), fst (app_handle e req w),
     (snd (app_handle e req w))
       \<lparr>counter := (bump (counter_labels req (fst (app_handle e req w))) ^^ length (finish_times evs)) (counter w),
        histogram := histogram w @
           map (\<lambda>t. (histogram_labels req (fst (app_handle e req w)), t - now w)) (finish_times evs),
        spans := spans w @
           [\<lparr>span_name = req_path req, span_parent = tracer_extract e (req_headers req),
             span_tags = (SPAN_KIND, Str SPAN_KIND_RPC_SERVER) #
                replicate (length (finish_times evs)) (HTTP_STATUS_CODE, Num (statusCode (fst (app_handle e req w)))),
             span_finish_calls = length (finish_times evs)\<rparr>],
        now := (if evs = [] then now w else fst (last evs)),
        trace := trace w @ [StartSpan (length (spans w)), StartTimer] @ concat (map (\<lambda>t.
                 [CounterInc (counter_labels req (fst (app_handle e req w))),
                  Observe (histogram_labels req (fst (app_handle e req w))) (t - now w),
                  SetTag (length (spans w)) HTTP_STATUS_CODE (Num (statusCode (fst (app_handle e req w)))),
                  SpanFinish (length (spans w))]) (finish_times evs))\<rparr>)"
proof -
  have s: "OpStartSpan \<notin> throws e" "OpStartTimer \<notin> throws e" using assms by simp_all
  note l = app_handle_listeners [OF s, of req w]
  have len: "cb_span \<lparr>cb_req = req, cb_span = length (spans w), cb_end = now w\<rparr>
               < length (spans (snd (app_handle e req w)))"
    by (simp add: app_handle_world [OF s])
  show ?thesis
    by (simp add: serve_def case_prod_beta deliver_ok [OF assms l len] app_handle_world [OF s])
qed





lemma length_bump: "length (bump l c) = (if l \<in> fst ` set c then length c else Suc (length c))"
  by (induction c) force+

lemma app_handle_not_found:
  assumes "OpStartSpan \<notin> throws e" and "OpStartTimer \<notin> throws e"
    and "\<not> registered_path (req_path req)"
  shows "statusCode (fst (app_handle e req w)) = 404"
  using assms(3)
  by (simp add: app_handle_started [OF assms(1,2)] router_def registered_path_def
        finalhandler_def res_end_def)


lemma sample_line_prefix: "prefix name (sample_line name s)"
  by (simp add: sample_line_def)

lemma counter_family_has_sample:
  "(\<exists>l \<in> set (counter_family c). prefix httpRequestCounter_name l) = (c \<noteq> [])"
proof (cases c)
  case Nil
  then show ?thesis by (simp add: counter_family_def httpRequestCounter_name_def)
next
  case (Cons s ss)
  have "sample_line httpRequestCounter_name s \<in> set (counter_family c)"
    by (simp add: counter_family_def Cons)
  then show ?thesis using sample_line_prefix Cons by blast
qed

lemma app_handle_metrics:
  assumes "OpStartSpan \<notin> throws e" and "OpStartTimer \<notin> throws e"
    and "req_method req = ''GET''" and "req_path req = ''/metrics''"
  shows "statusCode (fst (app_handle e req w)) = 200"
    and "res_headers (fst (app_handle e req w)) = [(''Content-Type'', register_contentType)]"
    and "body (fst (app_handle e req w)) = register_metrics e w"
  using assms(3,4)
  by (simp_all add: app_handle_started [OF assms(1,2)] router_def metrics_def path_matches_def
        strip_slash_def to_lower_def handles_method_def res_end_def res_set_def res_on_def
        new_response_def register_metrics_def Let_def)

subsection \<open>When a collaborator throws\<close>








text \<open>The defining equations of the model, for evaluating it on a concrete request.\<close>

lemmas model_defs =
  serve_def app_handle_def middleware_def router_def hello_def metrics_def env0_def fresh_def
  tracer_startSpan_def tracer_extract_def httpRequestDurationMicroseconds_startTimer_def
  res_on_def res_set_def new_response_def path_matches_def strip_slash_def to_lower_def
  handles_method_def registered_path_def res_send_def res_end_def logger_info_def emit_def
  on_finish_def httpRequestCounter_inc_def timer_end_def span_setTag_def span_finish_def
  validateLabel_def counter_labels_def histogram_labels_def httpRequestCounter_labelNames_def
  httpRequestDurationMicroseconds_labelNames_def HTTP_STATUS_CODE_def SPAN_KIND_def
  SPAN_KIND_RPC_SERVER_def header_codec_def finalhandler_def sendOptionsResponse_def
  finish_times_def register_metrics_def counter_family_def httpRequestCounter_name_def
  httpRequestCounter_help_def get_root_def get_root_traced_def get_root_untraced_def
  get_metrics_def post_nope_def Let_def

section \<open>The claims\<close>

subsection \<open>C1: one counter sample and one histogram sample\<close>



subsection \<open>C2: a second finish event\<close>




subsection \<open>C3: finishing the span on every exit path\<close>

text \<open>
  C3, as amended. The span of a request is finished once for each finish event emitted on
  the response, and the timer is stopped as often: exactly once when the response
  finishes, and not at all when only the close event is emitted, as it is when the client
  disconnects before the response is complete. The callback listens to the finish event
  alone, so in that case the span stays open and the timer is never stopped.
\<close>

theorem span_finished_once_per_finish_event:
  assumes "throws e = {}"
  shows "case serve e req evs w of (r, res, w') \<Rightarrow>
           length (spans w') = Suc (length (spans w)) \<and>
           span_finish_calls (spans w' ! length (spans w)) = length (finish_times evs) \<and>
           length (histogram w') = length (histogram w) + length (finish_times evs)"
  by (simp add: serve_ok [OF assms])

text \<open>Witness: a response that finishes and is then closed.\<close>

theorem span_finished_once_per_finish_event_witness:
  "throws env0 = {} \<and>
   (case serve env0 get_root [(5, Finish), (6, Close)] fresh of
      (r, res, w') \<Rightarrow>
        length (spans w') = Suc (length (spans fresh)) \<and>
        span_finish_calls (spans w' ! length (spans fresh)) =
          length (finish_times [(5, Finish), (6, Close)]) \<and>
        length (histogram w') =
          length (histogram fresh) + length (finish_times [(5, Finish), (6, Close)]))
   \<and> length (finish_times [(5, Finish), (6, Close)]) = 1"
  using span_finished_once_per_finish_event
          [where e = env0 and req = get_root and evs = "[(5, Finish), (6, Close)]" and w = fresh]
  by (simp add: env0_def finish_times_def)

text \<open>
  The claim as first stated fails: when the connection is closed before the response
  finishes, the span of \<open>GET /\<close> is never finished and nothing is recorded.
\<close>

theorem span_left_open_on_close:
  "case serve env0 get_root [(5, Close)] fresh of
     (r, res, w') \<Rightarrow>
       r = Inr () \<and>
       spans w' = [\<lparr>span_name = ''/'', span_parent = None,
                    span_tags = [(''span.kind'', Str ''server'')], span_finish_calls = 0\<rparr>] \<and>
       histogram w' = [] \<and> counter w' = []"
  by (simp add: model_defs)

subsection \<open>C4: a collaborator that throws\<close>




subsection \<open>C5: the order of the completion actions\<close>



subsection \<open>C6: no valid trace context\<close>

text \<open>
  C6. For every request whose headers carry no valid trace context (the codec finds
  none), extraction yields "no parent" without failing, the middleware returns normally,
  and the span it starts is a root span: it has no parent.
\<close>

theorem no_trace_context_gives_root_span:
  assumes "throws e = {}" and "codec e (req_headers req) = None"
  shows "case middleware e req new_response (router e req) w of (r, res, w') \<Rightarrow>
           r = Inr () \<and>
           spans w' = spans w @
             [\<lparr>span_name = req_path req, span_parent = None,
               span_tags = [(SPAN_KIND, Str SPAN_KIND_RPC_SERVER)], span_finish_calls = 0\<rparr>]"
  using assms
  by (simp add: middleware_def tracer_startSpan_def tracer_extract_def
        httpRequestDurationMicroseconds_startTimer_def router_world Let_def case_prod_beta)

text \<open>Witness: a request whose trace header is malformed.\<close>

theorem no_trace_context_gives_root_span_witness:
  "throws env0 = {} \<and> codec env0 (req_headers get_root_untraced) = None \<and>
   (case middleware env0 get_root_untraced new_response (router env0 get_root_untraced) fresh of
      (r, res, w') \<Rightarrow>
        r = Inr () \<and>
        spans w' = spans fresh @
          [\<lparr>span_name = req_path get_root_untraced, span_parent = None,
            span_tags = [(SPAN_KIND, Str SPAN_KIND_RPC_SERVER)], span_finish_calls = 0\<rparr>])"
  using no_trace_context_gives_root_span [where e = env0 and req = get_root_untraced and w = fresh]
  by (simp add: env0_def header_codec_def get_root_untraced_def)

subsection \<open>C7: the span of a request\<close>

text \<open>
  C7. For every request, the span opened by the middleware is named after the request
  path, carries the server-kind tag, and has the extracted context as its parent (so it is
  a child of that context when one is present). Every status-code tag set on it at
  completion is the final status code of the response: the tags after the server-kind tag
  are one such tag for each finish event, and the span is finished as often.
\<close>

theorem span_name_kind_parent_status:
  assumes "throws e = {}"
  shows "case serve e req evs w of (r, res, w') \<Rightarrow>
           spans w' = spans w @
             [\<lparr>span_name = req_path req,
               span_parent = tracer_extract e (req_headers req),
               span_tags = (SPAN_KIND, Str SPAN_KIND_RPC_SERVER) #
                 replicate (length (finish_times evs)) (HTTP_STATUS_CODE, Num (statusCode res)),
               span_finish_calls = length (finish_times evs)\<rparr>]"
  by (simp add: serve_ok [OF assms])

text \<open>Witness: a request that carries a trace context, and whose response finishes.\<close>

theorem span_name_kind_parent_status_witness:
  "throws env0 = {} \<and>
   tracer_extract env0 (req_headers get_root_traced) = Some (SpanContext ''abc123'' ''def456'') \<and>
   (case serve env0 get_root_traced [(5, Finish), (6, Close)] fresh of
      (r, res, w') \<Rightarrow>
        spans w' = spans fresh @
          [\<lparr>span_name = req_path get_root_traced,
            span_parent = Some (SpanContext ''abc123'' ''def456''),
            span_tags = [(SPAN_KIND, Str SPAN_KIND_RPC_SERVER),
                         (HTTP_STATUS_CODE, Num (statusCode res))],
            span_finish_calls = 1\<rparr>])"
  using span_name_kind_parent_status
          [where e = env0 and req = get_root_traced and evs = "[(5, Finish), (6, Close)]"
             and w = fresh]
  by (simp add: env0_def finish_times_def tracer_extract_def header_codec_def get_root_traced_def)

subsection \<open>C8: the greeting route\<close>



subsection \<open>C9: the metrics route\<close>

text \<open>
  C9, as amended. Every \<open>GET\<close> request to the path \<open>/metrics\<close> is answered with
  status 200, with the Content-Type of the registry, and with a body in the exposition
  format rendered from the samples accumulated before this request. The body always holds
  the \<open># HELP http_requests_total\<close> and \<open># TYPE http_requests_total counter\<close> lines. It
  holds a line that begins with \<open>http_requests_total\<close> exactly when the counter already
  has a series, that is, when some request has finished before; the sample of the request
  itself is recorded only after the body was rendered. (The lines of the other metric
  families do not begin with the counter's name.)
\<close>

theorem metrics_route:
  assumes "OpStartSpan \<notin> throws e" and "OpStartTimer \<notin> throws e"
    and "req_method req = ''GET''" and "req_path req = ''/metrics''"
    and "\<forall>l \<in> set (default_lines e @ histogram_lines e (histogram w)).
           \<not> prefix httpRequestCounter_name l"
  shows "case serve e req evs w of (r, res, w') \<Rightarrow>
           statusCode res = 200 \<and>
           map_of (res_headers res) ''Content-Type'' = Some register_contentType \<and>
           body res = default_lines e @ counter_family (counter w) @ histogram_lines e (histogram w) \<and>
           ''# HELP http_requests_total Total number of HTTP requests'' \<in> set (body res) \<and>
           ''# TYPE http_requests_total counter'' \<in> set (body res) \<and>
           (\<exists>l \<in> set (body res). prefix httpRequestCounter_name l) = (counter w \<noteq> [])"
proof -
  have b: "(\<exists>l \<in> set (register_metrics e w). prefix httpRequestCounter_name l) = (counter w \<noteq> [])"
    using assms(5) counter_family_has_sample [of "counter w"]
    by (auto simp add: register_metrics_def)
  have h: "''# HELP http_requests_total Total number of HTTP requests'' \<in> set (register_metrics e w)"
       "''# TYPE http_requests_total counter'' \<in> set (register_metrics e w)"
    by (simp_all add: register_metrics_def counter_family_def httpRequestCounter_name_def
          httpRequestCounter_help_def)
  have r: "register_metrics e w =
        default_lines e @ counter_family (counter w) @ histogram_lines e (histogram w)"
    by (simp add: register_metrics_def)
  show ?thesis
    using b h
    by (simp add: serve_def case_prod_beta app_handle_metrics [OF assms(1,2,3,4)] flip: r)
qed

text \<open>Witness: \<open>GET /metrics\<close> after one \<open>GET /\<close> has finished.\<close>

theorem metrics_route_witness:
  "OpStartSpan \<notin> throws env0 \<and> OpStartTimer \<notin> throws env0 \<and>
   req_method get_metrics = ''GET'' \<and> req_path get_metrics = ''/metrics'' \<and>
   list_all (\<lambda>l. \<not> prefix httpRequestCounter_name l)
     (default_lines env0 @
      histogram_lines env0 (histogram (snd (snd (serve env0 get_root [(5, Finish)] fresh))))) \<and>
   counter (snd (snd (serve env0 get_root [(5, Finish)] fresh))) \<noteq> [] \<and>
   (case serve env0 get_metrics [(8, Finish)] (snd (snd (serve env0 get_root [(5, Finish)] fresh))) of
      (r, res, w') \<Rightarrow>
        statusCode res = 200 \<and>
        map_of (res_headers res) ''Content-Type'' = Some register_contentType \<and>
        body res =
          default_lines env0 @
          counter_family (counter (snd (snd (serve env0 get_root [(5, Finish)] fresh)))) @
          histogram_lines env0 (histogram (snd (snd (serve env0 get_root [(5, Finish)] fresh)))) \<and>
        ''# HELP http_requests_total Total number of HTTP requests'' \<in> set (body res) \<and>
        ''# TYPE http_requests_total counter'' \<in> set (body res) \<and>
        (\<exists>l \<in> set (body res). prefix httpRequestCounter_name l) =
          (counter (snd (snd (serve env0 get_root [(5, Finish)] fresh))) \<noteq> []))"
proof -
  have c: "counter (snd (snd (serve env0 get_root [(5, Finish)] fresh))) \<noteq> []"
    by (simp add: model_defs)
  have t: "OpStartSpan \<notin> throws env0" "OpStartTimer \<notin> throws env0"
    by (simp_all add: env0_def)
  have m: "req_method get_metrics = ''GET''" "req_path get_metrics = ''/metrics''"
    by (simp_all add: get_metrics_def)
  have p: "\<forall>l \<in> set (default_lines env0 @
                 histogram_lines env0 (histogram (snd (snd (serve env0 get_root [(5, Finish)] fresh))))).
       \<not> prefix httpRequestCounter_name l"
    by (simp add: env0_def httpRequestCounter_name_def)
  have q: "list_all (\<lambda>l. \<not> prefix httpRequestCounter_name l)
     (default_lines env0 @
      histogram_lines env0 (histogram (snd (snd (serve env0 get_root [(5, Finish)] fresh)))))"
    using p by (simp only: list_all_iff)
  show ?thesis
    by (intro conjI t m q c
          metrics_route [where e = env0 and req = get_metrics and evs = "[(8, Finish)]"
            and w = "snd (snd (serve env0 get_root [(5, Finish)] fresh))", OF t m p])
qed

text \<open>
  The claim as first stated fails: on a fresh process, before any request has finished,
  the body of \<open>GET /metrics\<close> holds the two comment lines of the counter and no line that
  begins with \<open>http_requests_total\<close>.
\<close>

theorem first_scrape_has_no_sample_line:
  "case serve env0 get_metrics [(3, Finish), (4, Close)] fresh of
     (r, res, w') \<Rightarrow>
       statusCode res = 200 \<and>
       body res =
         [''# HELP process_cpu_user_seconds_total Total user CPU time spent in seconds.'',
          ''# TYPE process_cpu_user_seconds_total counter'',
          ''process_cpu_user_seconds_total{app='' @ [CHR 0x22] @ ''nodejs-demo-app'' @ [CHR 0x22] @ ''} 0'',
          ''# HELP http_requests_total Total number of HTTP requests'',
          ''# TYPE http_requests_total counter'',
          ''# HELP http_request_duration_ms Duration of HTTP requests in ms'',
          ''# TYPE http_request_duration_ms histogram''] \<and>
       filter (prefix ''http_requests_total'') (body res) = []"
  by (simp add: model_defs)

subsection \<open>C10: requests that match no route\<close>

text \<open>
  C10. The middleware runs for every request, whether or not a route matches. A request
  to a path that no route is registered for is answered 404 by the framework and, when its
  response finishes, still produces exactly one counter sample, one histogram sample and
  one span, labelled and named with the request path as it came in (not with a route
  pattern). A path not seen before makes a new counter series, so the number of values of
  the route label is not bounded.
\<close>

theorem unmatched_request_is_instrumented:
  assumes "throws e = {}" and "finish_times evs = [t]" and "\<not> registered_path (req_path req)"
  shows "case serve e req evs w of (r, res, w') \<Rightarrow>
           r = Inr () \<and> statusCode res = 404 \<and>
           counter w' =
             bump [(''method'', Str (req_method req)), (''route'', Str (req_path req)),
                   (''status_code'', Num 404)] (counter w) \<and>
           histogram w' = histogram w @
             [([(''method'', Str (req_method req)), (''route'', Str (req_path req)),
                (''code'', Num 404)], t - now w)] \<and>
           length (spans w') = Suc (length (spans w)) \<and>
           span_name (spans w' ! length (spans w)) = req_path req \<and>
           span_finish_calls (spans w' ! length (spans w)) = 1 \<and>
           ((\<forall>s \<in> set (counter w). map_of (fst s) ''route'' \<noteq> Some (Str (req_path req))) \<longrightarrow>
              length (counter w') = Suc (length (counter w)))"
proof -
  have s: "OpStartSpan \<notin> throws e" "OpStartTimer \<notin> throws e" using assms(1) by simp_all
  have fresh_key: "(\<forall>s \<in> set (counter w). map_of (fst s) ''route'' \<noteq> Some (Str (req_path req))) \<Longrightarrow>
        [(''method'', Str (req_method req)), (''route'', Str (req_path req)),
                   (''status_code'', Num 404)] \<notin> fst ` set (counter w)"
    by force
  show ?thesis
    using fresh_key
    by (simp add: serve_ok [OF assms(1)] assms(2) app_handle_not_found [OF s assms(3)]
          counter_labels_def histogram_labels_def length_bump)
qed

text \<open>
  Witness: a \<open>POST\<close> to \<open>/nope\<close> after a \<open>GET /\<close>; the counter then has two series.
\<close>

theorem unmatched_request_is_instrumented_witness:
  "throws env0 = {} \<and> finish_times [(9, Finish)] = [9] \<and> \<not> registered_path (req_path post_nope) \<and>
   list_all (\<lambda>s. map_of (fst s) ''route'' \<noteq> Some (Str (req_path post_nope)))
     (counter (snd (snd (serve env0 get_root [(5, Finish)] fresh)))) \<and>
   length (counter (snd (snd (serve env0 get_root [(5, Finish)] fresh)))) = 1 \<and>
   (case serve env0 post_nope [(9, Finish)] (snd (snd (serve env0 get_root [(5, Finish)] fresh))) of
      (r, res, w') \<Rightarrow>
        r = Inr () \<and> statusCode res = 404 \<and>
        counter w' =
          bump [(''method'', Str (req_method post_nope)), (''route'', Str (req_path post_nope)),
                (''status_code'', Num 404)]
            (counter (snd (snd (serve env0 get_root [(5, Finish)] fresh)))) \<and>
        histogram w' = histogram (snd (snd (serve env0 get_root [(5, Finish)] fresh))) @
          [([(''method'', Str (req_method post_nope)), (''route'', Str (req_path post_nope)),
             (''code'', Num 404)], 9 - now (snd (snd (serve env0 get_root [(5, Finish)] fresh))))] \<and>
        length (spans w') = Suc (length (spans (snd (snd (serve env0 get_root [(5, Finish)] fresh))))) \<and>
        span_name (spans w' ! length (spans (snd (snd (serve env0 get_root [(5, Finish)] fresh)))))
          = req_path post_nope \<and>
        span_finish_calls (spans w' ! length (spans (snd (snd (serve env0 get_root [(5, Finish)] fresh)))))
          = 1 \<and>
        ((\<forall>s \<in> set (counter (snd (snd (serve env0 get_root [(5, Finish)] fresh)))).
             map_of (fst s) ''route'' \<noteq> Some (Str (req_path post_nope))) \<longrightarrow>
           length (counter w') =
             Suc (length (counter (snd (snd (serve env0 get_root [(5, Finish)] fresh)))))))"
proof -
  have c: "counter (snd (snd (serve env0 get_root [(5, Finish)] fresh))) =
             [([(''method'', Str ''GET''), (''route'', Str ''/''), (''status_code'', Num 200)], 1)]"
    by (simp add: model_defs)
  have t: "throws env0 = {}"
    by (simp add: env0_def)
  have f: "finish_times [(9, Finish)] = [9]"
    by (simp add: finish_times_def)
  have n: "\<not> registered_path (req_path post_nope)"
    by (simp add: registered_path_def path_matches_def strip_slash_def to_lower_def post_nope_def)
  have u: "list_all (\<lambda>s. map_of (fst s) ''route'' \<noteq> Some (Str (req_path post_nope)))
     (counter (snd (snd (serve env0 get_root [(5, Finish)] fresh))))"
    by (simp add: c post_nope_def)
  have l: "length (counter (snd (snd (serve env0 get_root [(5, Finish)] fresh)))) = 1"
    by (simp add: c)
  show ?thesis
    by (intro conjI t f n u l
          unmatched_request_is_instrumented [where e = env0 and req = post_nope
            and evs = "[(9, Finish)]" and t = 9
            and w = "snd (snd (serve env0 get_root [(5, Finish)] fresh))", OF t f n])
qed

end
